theory Spec2Isabelle
  imports Complex_Main "HOL-Library.Multiset"
begin

section \<open>Python values used by newspaperbulk.py\<close>

subsection \<open>Exceptions\<close>

text \<open>
  An exception value is its class name (what \<^verbatim>\<open>e.__class__.__name__\<close> yields) together
  with the qualified names of the classes it is an instance of: its own class and all the
  base classes. An \<^verbatim>\<open>except (A, B)\<close> clause catches it when one of \<^verbatim>\<open>A\<close>, \<^verbatim>\<open>B\<close> is among them,
  so a subclass such as \<^verbatim>\<open>SSLError\<close> is caught by \<^verbatim>\<open>except ConnectionError\<close> and still
  reports its own name.
\<close>

datatype exc = Exc (cls_name: string) (mro: "string list")

definition isinstance :: "exc \<Rightarrow> string list \<Rightarrow> bool" where
  "isinstance e classes = (set (mro e) \<inter> set classes \<noteq> {})"

text \<open>The five classes imported from \<^verbatim>\<open>requests.exceptions\<close> on line 16 of the source.\<close>

definition ConnectionError :: string where
  "ConnectionError = ''requests.exceptions.ConnectionError''"

definition InvalidSchema :: string where
  "InvalidSchema = ''requests.exceptions.InvalidSchema''"

definition MissingSchema :: string where
  "MissingSchema = ''requests.exceptions.MissingSchema''"

definition TooManyRedirects :: string where
  "TooManyRedirects = ''requests.exceptions.TooManyRedirects''"

definition RetryError :: string where
  "RetryError = ''requests.exceptions.RetryError''"

text \<open>Exceptions of the interpreter itself that the script can raise.\<close>

definition AttributeError :: exc where
  "AttributeError = Exc ''AttributeError'' [''builtins.AttributeError'', ''builtins.Exception'']"

definition ZeroDivisionError :: exc where
  "ZeroDivisionError =
     Exc ''ZeroDivisionError''
       [''builtins.ZeroDivisionError'', ''builtins.ArithmeticError'', ''builtins.Exception'']"

definition KeyError :: exc where
  "KeyError = Exc ''KeyError'' [''builtins.KeyError'', ''builtins.LookupError'', ''builtins.Exception'']"

definition EmptyDataError :: exc where
  "EmptyDataError =
     Exc ''EmptyDataError'' [''pandas.errors.EmptyDataError'', ''builtins.ValueError'', ''builtins.Exception'']"

subsection \<open>Rendering integers: \<^verbatim>\<open>str(n)\<close> and \<^verbatim>\<open>"%s" % n\<close>\<close>

definition digit :: "nat \<Rightarrow> char" where
  "digit n = ''0123456789'' ! (n mod 10)"

function str_nat :: "nat \<Rightarrow> string" where
  "str_nat n = (if n < 10 then [digit n] else str_nat (n div 10) @ [digit n])"
  by pat_completeness auto
termination
  by (relation "measure id") auto

declare str_nat.simps [simp del]

definition str_int :: "int \<Rightarrow> string" where
  "str_int i = (if i < 0 then CHR ''-'' # str_nat (nat (- i)) else str_nat (nat i))"

subsection \<open>The session, the response and the article\<close>

text \<open>
  \<^verbatim>\<open>create_session\<close> builds a \<^verbatim>\<open>requests.Session\<close> whose two adapters share one
  \<^verbatim>\<open>Retry\<close> object; the session is modelled by the three values that object is built from.
  The backoff factor is a Python float; it is only stored, never computed with, on the
  script's side, and is kept as a rational.
\<close>

record session =
  total :: int
  backoff_factor :: rat
  status_forcelist :: "int list"

definition create_session :: "int \<Rightarrow> rat \<Rightarrow> session" where
  "create_session max_retries backoff_factor' =
     \<lparr>total = max_retries, backoff_factor = backoff_factor',
      status_forcelist = [500, 502, 503, 504]\<rparr>"

text \<open>
  Of a \<^verbatim>\<open>requests.Response\<close> the script reads \<^verbatim>\<open>ok\<close> and \<^verbatim>\<open>status_code\<close>. Both are
  attributes computed by the \<^verbatim>\<open>requests\<close> library, so both are fields supplied with the
  response.
\<close>

record response =
  status_code :: int
  ok :: bool

text \<open>
  Of a \<^verbatim>\<open>newspaper.Article\<close> the script reads \<^verbatim>\<open>download_state\<close> after \<^verbatim>\<open>download()\<close>
  and, after \<^verbatim>\<open>parse()\<close> and \<^verbatim>\<open>nlp()\<close>, the fields it writes. \<^verbatim>\<open>parse()\<close> and \<^verbatim>\<open>nlp()\<close>
  may raise; \<open>art_parse\<close> and \<open>art_nlp\<close> hold the exception when they do.
  \<^verbatim>\<open>keywords\<close>, \<^verbatim>\<open>tags\<close> and \<^verbatim>\<open>meta_keywords\<close> are a list, a set and a list of strings;
  \<^verbatim>\<open>csv.writer\<close> writes \<^verbatim>\<open>str()\<close> of each, and the record holds that string.
\<close>

record article =
  download_state :: int
  art_parse :: "exc option"
  art_nlp :: "exc option"
  art_text :: string
  art_title :: string
  art_keywords :: string
  art_tags :: string
  art_meta_keywords :: string
  art_html :: string

subsection \<open>The outside world\<close>

text \<open>
  Everything the script asks of the network and of its libraries is an oracle. The network
  is not a function of the URL (two requests for one URL may be answered differently), so
  \<open>session_get\<close> and \<open>article_download\<close> are asked per work item \<open>(index, url)\<close>;
  each work item is requested once.
  \<^item> \<open>session_get\<close>: \<^verbatim>\<open>session.get(url_str, allow_redirects=..., verify=...)\<close>, raising
    (\<open>Inl\<close>) or returning a response;
  \<^item> \<open>article_download\<close>: the article after \<^verbatim>\<open>newspaper.Article(url_str).download()\<close>;
  \<^item> \<open>soup_find_time\<close>: \<^verbatim>\<open>BeautifulSoup(html).find('time')\<close>, as the text of the tag found
    (\<^verbatim>\<open>getText()\<close>), or \<open>None\<close> when the page has no such tag;
  \<^item> \<open>dateutil_parse\<close>: \<^verbatim>\<open>dateutil.parser.parse\<close>, raising or returning the pair
    \<^verbatim>\<open>(str(dt.date()), str(dt.time()))\<close>;
  \<^item> \<open>is_na\<close>: whether \<^verbatim>\<open>pandas.read_csv\<close> reads a cell as missing.
\<close>

record env =
  session_get :: "session \<Rightarrow> nat \<times> string \<Rightarrow> bool \<Rightarrow> bool \<Rightarrow> exc + response"
  article_download :: "nat \<times> string \<Rightarrow> article"
  soup_find_time :: "string \<Rightarrow> string option"
  dateutil_parse :: "string \<Rightarrow> exc + string \<times> string"
  is_na :: "string \<Rightarrow> bool"

text \<open>
  What the script changes: the two CSV files (a file is the list of rows written so far,
  the header row first; a row is the list of its cells), standard output, and the
  requests sent through the session.
\<close>

record world =
  cleanfile :: "string list list"
  errorfile :: "string list list"
  stdout :: "string list"
  gets :: "(string \<times> bool \<times> bool) list"

definition cleanwriter_writerow :: "string list \<Rightarrow> world \<Rightarrow> world" where
  "cleanwriter_writerow row w = w\<lparr>cleanfile := cleanfile w @ [row]\<rparr>"

definition errorwriter_writerow :: "string list \<Rightarrow> world \<Rightarrow> world" where
  "errorwriter_writerow row w = w\<lparr>errorfile := errorfile w @ [row]\<rparr>"

definition print :: "string \<Rightarrow> world \<Rightarrow> world" where
  "print line w = w\<lparr>stdout := stdout w @ [line]\<rparr>"

section \<open>The functions of newspaperbulk.py\<close>

subsection \<open>\<^verbatim>\<open>get_date_time\<close>\<close>

text \<open>\<^verbatim>\<open>s[14:-4]\<close>: the stop index \<open>len(s) - 4\<close> is clipped at 0, the start at \<open>len(s)\<close>.\<close>

definition slice_14_m4 :: "string \<Rightarrow> string" where
  "slice_14_m4 s = drop 14 (take (length s - 4) s)"

definition get_date_time :: "env \<Rightarrow> string \<Rightarrow> exc + string \<times> string" where
  "get_date_time env html =
     (case soup_find_time env html of
        None \<Rightarrow> Inl AttributeError
      | Some time_tag \<Rightarrow> dateutil_parse env (slice_14_m4 time_tag))"

subsection \<open>\<^verbatim>\<open>get_text_from_url\<close>\<close>

text \<open>
  The result is the exception that leaves the function, if any, and the world after it.
\<close>

definition exc_line :: "nat \<Rightarrow> exc \<Rightarrow> string \<Rightarrow> string" where
  "exc_line url_idx e url_str =
     ''#'' @ str_nat url_idx @ '':'' @ '' '' @ cls_name e @ '' '' @ url_str"

definition status_line :: "nat \<Rightarrow> int \<Rightarrow> string \<Rightarrow> string" where
  "status_line url_idx code url_str =
     ''#'' @ str_nat url_idx @ '': Error with status code '' @ str_int code
       @ '' for URL: '' @ url_str"

definition not_valid_line :: "string \<Rightarrow> string" where
  "not_valid_line url_str = url_str @ '' is not a valid URL''"

definition get_text_from_url ::
  "env \<Rightarrow> session \<Rightarrow> bool \<Rightarrow> bool \<Rightarrow> nat \<times> string \<Rightarrow> world \<Rightarrow> exc option \<times> world" where
  "get_text_from_url env sess allow_redirects verify url w =
     (let url_idx = fst url;
          url_str = snd url;
          w1 = w\<lparr>gets := gets w @ [(url_str, allow_redirects, verify)]\<rparr>
      in case session_get env sess url allow_redirects verify of
           Inl e \<Rightarrow>
             if isinstance e [ConnectionError, InvalidSchema] then
               (None, print (not_valid_line url_str)
                        (print (exc_line url_idx e url_str)
                           (errorwriter_writerow [url_str, cls_name e] w1)))
             else if isinstance e [MissingSchema, TooManyRedirects, RetryError] then
               (None, print (not_valid_line url_str)
                        (print (exc_line url_idx e url_str)
                           (errorwriter_writerow [url_str, cls_name e] w1)))
             else (Some e, w1)
         | Inr resp \<Rightarrow>
             if ok resp then
               (let art = article_download env url in
                if download_state art = 2 then
                  (case art_parse art of
                     Some e \<Rightarrow> (Some e, w1)
                   | None \<Rightarrow>
                       (case art_nlp art of
                          Some e \<Rightarrow> (Some e, w1)
                        | None \<Rightarrow>
                            (case get_date_time env (art_html art) of
                               Inl e \<Rightarrow> (Some e, w1)
                             | Inr (date, time) \<Rightarrow>
                                 (None, cleanwriter_writerow
                                    [art_text art, art_title art, art_keywords art, url_str,
                                     art_tags art, art_meta_keywords art, date, time] w1))))
                else (None, w1))
             else
               (None, print (status_line url_idx (status_code resp) url_str)
                        (errorwriter_writerow [url_str, str_int (status_code resp)] w1)))"

subsection \<open>\<^verbatim>\<open>clean_up_output\<close>\<close>

text \<open>
  \<^verbatim>\<open>pd.read_csv(filename).dropna(subset=['text'])\<close> takes the first row as the header,
  looks the column \<^verbatim>\<open>text\<close> up in it, and drops every data row whose cell in that column
  is missing: read as missing by pandas, or absent because the row is too short.
  \<^verbatim>\<open>to_csv\<close> writes the header and the rows kept; the count of the rows kept is returned.
  Which rows are kept and how many is all the model follows: the cells of a kept row are
  carried over as they are.
\<close>

fun index_of :: "'a list \<Rightarrow> 'a \<Rightarrow> nat option" where
  "index_of [] a = None"
| "index_of (x # xs) a = (if x = a then Some 0 else map_option Suc (index_of xs a))"

definition missing :: "(string \<Rightarrow> bool) \<Rightarrow> nat \<Rightarrow> string list \<Rightarrow> bool" where
  "missing na i row = (if i < length row then na (row ! i) else True)"

definition dropna :: "(string \<Rightarrow> bool) \<Rightarrow> nat \<Rightarrow> string list list \<Rightarrow> string list list" where
  "dropna na i rows = filter (\<lambda>row. \<not> missing na i row) rows"

definition clean_up_output ::
  "(string \<Rightarrow> bool) \<Rightarrow> string list list \<Rightarrow> exc + string list list \<times> nat" where
  "clean_up_output na file =
     (case file of
        [] \<Rightarrow> Inl EmptyDataError
      | header # rows \<Rightarrow>
          (case index_of header ''text'' of
             None \<Rightarrow> Inl KeyError
           | Some i \<Rightarrow> (let df = dropna na i rows in Inr (header # df, length df))))"

subsection \<open>\<^verbatim>\<open>target_task\<close> and the threads\<close>

text \<open>
  A thread runs \<^verbatim>\<open>target_task\<close>: \<^verbatim>\<open>while not q.empty(): url = q.get(); get_text_from_url(...);
  q.task_done()\<close>. Between two of its steps any other thread may run, so a thread is a small
  state machine:
  \<^item> \<open>Ready\<close>: at the loop test;
  \<^item> \<open>Checked\<close>: it has seen \<^verbatim>\<open>q.empty()\<close> false and is about to call \<^verbatim>\<open>q.get()\<close>, which
    blocks while the queue is empty;
  \<^item> \<open>Holding url\<close>: \<^verbatim>\<open>q.get()\<close> has returned \<open>url\<close>;
  \<^item> \<open>Exited\<close>: it has seen \<^verbatim>\<open>q.empty()\<close> true and left the loop;
  \<^item> \<open>Dead e\<close>: \<open>e\<close> left \<^verbatim>\<open>get_text_from_url\<close>; nothing in \<^verbatim>\<open>target_task\<close> catches it, so
    the thread ends, before \<^verbatim>\<open>q.task_done()\<close>.
  The queue counts in \<open>unfinished_tasks\<close> the items put and not yet marked done, as
  \<^verbatim>\<open>queue.Queue\<close> does for \<^verbatim>\<open>join()\<close>.
  The step of a thread that holds an item is the whole of \<^verbatim>\<open>get_text_from_url\<close> and, when
  it returns, \<^verbatim>\<open>q.task_done()\<close>: the call writes at most one row, so finer steps would only
  reorder the lines of standard output among the threads.
\<close>

datatype thread = Ready | Checked | Holding "nat \<times> string" | Exited | Dead exc

record pool =
  queue :: "(nat \<times> string) list"
  unfinished_tasks :: nat
  workers :: "thread list"
  world :: world

text \<open>One step of thread \<open>i\<close>; \<open>None\<close> when it has none (blocked, ended, or no such thread).\<close>

definition target_task ::
  "env \<Rightarrow> session \<Rightarrow> bool \<Rightarrow> bool \<Rightarrow> nat \<Rightarrow> pool \<Rightarrow> pool option" where
  "target_task env sess allow_redirects verify i p =
     (if i < length (workers p) then
        (case workers p ! i of
           Ready \<Rightarrow>
             if queue p = [] then Some (p\<lparr>workers := (workers p)[i := Exited]\<rparr>)
             else Some (p\<lparr>workers := (workers p)[i := Checked]\<rparr>)
         | Checked \<Rightarrow>
             (case queue p of
                [] \<Rightarrow> None
              | url # rest \<Rightarrow> Some (p\<lparr>queue := rest, workers := (workers p)[i := Holding url]\<rparr>))
         | Holding url \<Rightarrow>
             (case get_text_from_url env sess allow_redirects verify url (world p) of
                (Some e, w) \<Rightarrow> Some (p\<lparr>workers := (workers p)[i := Dead e], world := w\<rparr>)
              | (None, w) \<Rightarrow>
                  Some (p\<lparr>unfinished_tasks := unfinished_tasks p - 1,
                          workers := (workers p)[i := Ready], world := w\<rparr>))
         | Exited \<Rightarrow> None
         | Dead e \<Rightarrow> None)
      else None)"

text \<open>
  A schedule is the list of the threads' turns. A turn given to a thread that has no step
  changes nothing.
\<close>

definition turn :: "env \<Rightarrow> session \<Rightarrow> bool \<Rightarrow> bool \<Rightarrow> nat \<Rightarrow> pool \<Rightarrow> pool" where
  "turn env sess allow_redirects verify i p =
     (case target_task env sess allow_redirects verify i p of None \<Rightarrow> p | Some p' \<Rightarrow> p')"

fun run :: "env \<Rightarrow> session \<Rightarrow> bool \<Rightarrow> bool \<Rightarrow> nat list \<Rightarrow> pool \<Rightarrow> pool" where
  "run env sess allow_redirects verify [] p = p"
| "run env sess allow_redirects verify (i # sched) p =
     run env sess allow_redirects verify sched (turn env sess allow_redirects verify i p)"

text \<open>
  \<^verbatim>\<open>q.join()\<close> returns as soon as no task is unfinished. \<open>None\<close>: the main thread is still
  blocked when the schedule ends.
\<close>

fun join :: "env \<Rightarrow> session \<Rightarrow> bool \<Rightarrow> bool \<Rightarrow> nat list \<Rightarrow> pool \<Rightarrow> pool option" where
  "join env sess allow_redirects verify sched p =
     (if unfinished_tasks p = 0 then Some p
      else (case sched of
              [] \<Rightarrow> None
            | i # sched' \<Rightarrow>
                join env sess allow_redirects verify sched'
                  (turn env sess allow_redirects verify i p)))"

declare join.simps [simp del]

subsection \<open>\<^verbatim>\<open>main\<close>\<close>

record args =
  threads :: int
  redirects :: bool
  unverified :: bool
  max_retries :: int
  backoff :: rat

definition clean_header :: "string list" where
  "clean_header = [''text'', ''title'', ''keywords'', ''url'', ''tags'', ''meta_tags'', ''date'', ''time'']"

definition error_header :: "string list" where
  "error_header = [''url'', ''error'']"

text \<open>Lines 217 to 224: both files opened empty, both headers written.\<close>

definition open_files :: world where
  "open_files =
     errorwriter_writerow error_header
       (cleanwriter_writerow clean_header
          \<lparr>cleanfile = [], errorfile = [], stdout = [], gets = []\<rparr>)"

text \<open>
  Lines 226 to 246: the queue filled with \<open>(i, urls[i])\<close> and
  \<^verbatim>\<open>range(min(args.threads, total_urls))\<close> threads started; \<^verbatim>\<open>range\<close> of a negative number
  is empty.
\<close>

definition launch :: "args \<Rightarrow> string list \<Rightarrow> world \<Rightarrow> pool" where
  "launch a urls w =
     (let total_urls = length urls;
          threads' = min (threads a) (int total_urls)
      in \<lparr>queue = enumerate 0 urls, unfinished_tasks = total_urls,
          workers = replicate (nat threads') Ready, world = w\<rparr>)"

text \<open>
  The summary that line 257 prints, before rounding: the two counts and their quotient.
\<close>

record summary =
  successful_urls :: nat
  total_urls :: nat
  success_rate :: rat

text \<open>
  \<open>main\<close> from line 208 on, for the URLs read from the input file and a schedule of the
  threads. \<open>None\<close>: \<^verbatim>\<open>q.join()\<close> has not returned. Otherwise the exception that ends the
  script or the summary, and the world at that point. \<^verbatim>\<open>successful_urls / total_urls\<close>
  raises \<^verbatim>\<open>ZeroDivisionError\<close> when \<^verbatim>\<open>total_urls\<close> is 0.
\<close>

definition main :: "env \<Rightarrow> args \<Rightarrow> string list \<Rightarrow> nat list \<Rightarrow> ((exc + summary) \<times> world) option" where
  "main env a urls sched =
     (let sess = create_session (max_retries a) (backoff a);
          total = length urls
      in case join env sess (redirects a) (unverified a) sched (launch a urls open_files) of
           None \<Rightarrow> None
         | Some p \<Rightarrow>
             (case clean_up_output (is_na env) (cleanfile (world p)) of
                Inl e \<Rightarrow> Some (Inl e, world p)
              | Inr (df, successful) \<Rightarrow>
                  (let w = (world p)\<lparr>cleanfile := df\<rparr>
                   in if total = 0 then Some (Inl ZeroDivisionError, w)
                      else Some (Inr \<lparr>successful_urls = successful, total_urls = total,
                                      success_rate = of_nat successful / of_nat total\<rparr>, w))))"

section \<open>Notions used to state the properties\<close>

text \<open>The data rows of a file are the rows after the header.\<close>

definition data_rows :: "string list list \<Rightarrow> string list list" where
  "data_rows file = tl file"

text \<open>The cell of a data row in the column that the header calls \<open>name\<close>, when it has one.\<close>

definition column :: "string \<Rightarrow> string list \<Rightarrow> string list \<Rightarrow> string option" where
  "column name header row =
     (case index_of header name of
        None \<Rightarrow> None
      | Some i \<Rightarrow> if i < length row then Some (row ! i) else None)"

text \<open>
  The URLs in the two sinks: the fourth cell of a row of the Clean Sink, the first cell of
  a row of the Error Sink, as \<^verbatim>\<open>get_text_from_url\<close> writes them.
\<close>

definition clean_urls :: "world \<Rightarrow> string list" where
  "clean_urls w = map (\<lambda>row. row ! 3) (data_rows (cleanfile w))"

definition error_urls :: "world \<Rightarrow> string list" where
  "error_urls w = map (\<lambda>row. row ! 0) (data_rows (errorfile w))"

text \<open>A pool is quiescent when no thread has a step.\<close>

definition quiescent :: "env \<Rightarrow> session \<Rightarrow> bool \<Rightarrow> bool \<Rightarrow> pool \<Rightarrow> bool" where
  "quiescent env sess allow_redirects verify p =
     list_all (\<lambda>i. target_task env sess allow_redirects verify i p = None)
       [0 ..< length (workers p)]"

text \<open>
  A thread that is at the loop test or about to call \<^verbatim>\<open>q.get()\<close> will take an item if
  there is one.
\<close>

fun waiting :: "thread \<Rightarrow> bool" where
  "waiting Ready = True"
| "waiting Checked = True"
| "waiting _ = False"

text \<open>
  The invariant of the pool behind the consumption of the queue: there are at least as
  many waiting threads as items in the queue.
\<close>

definition enough :: "pool \<Rightarrow> bool" where
  "enough p = (length (queue p) \<le> length (filter waiting (workers p)))"

text \<open>The URL a thread holds.\<close>

fun held :: "thread \<Rightarrow> string list" where
  "held (Holding url) = [snd url]"
| "held _ = []"

text \<open>
  Every step of a thread lowers the potential of the pool, so no schedule gives the
  threads more than \<open>potential\<close> steps.
\<close>

fun weight :: "thread \<Rightarrow> nat" where
  "weight Ready = 2"
| "weight Checked = 1"
| "weight (Holding url) = 3"
| "weight Exited = 0"
| "weight (Dead e) = 0"

definition potential :: "pool \<Rightarrow> nat" where
  "potential p = 4 * length (queue p) + sum_list (map weight (workers p))"

text \<open>
  The invariant of the pool behind the count of rows: the URLs in the two sinks, in the
  queue and in the hands of the threads are, with repetition, among the input URLs; and
  both files have their header row.
\<close>

definition accounted :: "string list \<Rightarrow> pool \<Rightarrow> bool" where
  "accounted urls p =
     (cleanfile (world p) \<noteq> [] \<and> errorfile (world p) \<noteq> [] \<and>
      mset (clean_urls (world p)) + mset (error_urls (world p))
        + mset (map snd (queue p)) + mset (concat (map held (workers p))) \<subseteq># mset urls)"

section \<open>An example site\<close>

text \<open>
  A small network to run the script on: one page that extracts, one page without a
  \<^verbatim>\<open>time\<close> element, one page whose article download fails, a URL without a scheme, a
  page that answers 404, and a host that refuses the connection. \<open>pandas_na\<close> lists the
  strings that \<^verbatim>\<open>pandas.read_csv\<close> reads as missing by default.
\<close>

definition MissingSchema_exc :: exc where
  "MissingSchema_exc =
     Exc ''MissingSchema''
       [MissingSchema, ''requests.exceptions.RequestException'', ''builtins.ValueError'',
        ''builtins.OSError'', ''builtins.Exception'']"

definition ConnectionError_exc :: exc where
  "ConnectionError_exc =
     Exc ''ConnectionError''
       [ConnectionError, ''requests.exceptions.RequestException'', ''builtins.OSError'',
        ''builtins.Exception'']"

definition RetryError_exc :: exc where
  "RetryError_exc =
     Exc ''RetryError''
       [RetryError, ''requests.exceptions.RequestException'', ''builtins.OSError'',
        ''builtins.Exception'']"

definition ParserError_exc :: exc where
  "ParserError_exc =
     Exc ''ParserError'' [''dateutil.parser.ParserError'', ''builtins.ValueError'', ''builtins.Exception'']"

definition pandas_na :: "string \<Rightarrow> bool" where
  "pandas_na s = (s \<in> set ['''', ''#N/A'', ''#N/A N/A'', ''#NA'', ''-1.#IND'', ''-1.#QNAN'',
     ''-NaN'', ''-nan'', ''1.#IND'', ''1.#QNAN'', ''<NA>'', ''N/A'', ''NA'', ''NULL'', ''NaN'',
     ''None'', ''n/a'', ''nan'', ''null''])"

definition example_article :: "int \<Rightarrow> string \<Rightarrow> article" where
  "example_article state html =
     \<lparr>download_state = state, art_parse = None, art_nlp = None,
      art_text = ''Some text'', art_title = ''A title'', art_keywords = ''[]'',
      art_tags = ''set()'', art_meta_keywords = ''[]'', art_html = html\<rparr>"

definition example_env :: env where
  "example_env =
     \<lparr>session_get = (\<lambda>sess url allow_redirects verify.
        if snd url = ''not-a-url'' then Inl MissingSchema_exc
        else if snd url = ''https://down.example/'' then Inl ConnectionError_exc
        else if snd url = ''https://valid.example/404'' then Inr \<lparr>status_code = 404, ok = False\<rparr>
        else Inr \<lparr>status_code = 200, ok = True\<rparr>),
      article_download = (\<lambda>url.
        if snd url = ''https://valid.example/page'' then example_article 2 ''<time>''
        else if snd url = ''https://valid.example/notime'' then example_article 2 ''<p>''
        else example_article 1 ''''),
      soup_find_time = (\<lambda>html.
        if html = ''<time>'' then Some ''Published on: 2020-01-02 03:04 GMT'' else None),
      dateutil_parse = (\<lambda>s.
        if s = ''2020-01-02 03:04'' then Inr (''2020-01-02'', ''03:04:00'')
        else Inl ParserError_exc),
      is_na = pandas_na\<rparr>"

text \<open>
  The same site behind a network that refuses the request of the first work item and
  answers every other.
\<close>

definition flaky_env :: env where
  "flaky_env =
     example_env\<lparr>session_get := (\<lambda>sess url allow_redirects verify.
        if fst url = 0 then Inl ConnectionError_exc
        else Inr \<lparr>status_code = 200, ok = True\<rparr>)\<rparr>"

text \<open>
  The pool of one thread on the two URLs \<^verbatim>\<open>notime\<close> and \<^verbatim>\<open>page\<close>, once
  \<^verbatim>\<open>AttributeError\<close> has left \<^verbatim>\<open>get_text_from_url\<close> on the first.
\<close>

definition stuck_pool :: pool where
  "stuck_pool =
     \<lparr>queue = [(1, ''https://valid.example/page'')], unfinished_tasks = 2,
      workers = [Dead AttributeError],
      world = open_files\<lparr>gets := [(''https://valid.example/notime'', False, True)]\<rparr>\<rparr>"

definition example_args :: args where
  "example_args =
     \<lparr>threads = 100, redirects = False, unverified = True, max_retries = 0, backoff = 0\<rparr>"

section \<open>The retry loop of the client adapter\<close>

text \<open>
  Modelled from the spec: what one attempt of the HTTP client yields on the wire. The
  attempts are made inside \<^verbatim>\<open>session.get\<close>, by the adapter of the \<^verbatim>\<open>requests\<close> library
  that \<^verbatim>\<open>create_session\<close> mounts, which is not part of the repository. Section 4.3 of the
  spec names three outcomes of a fetch that is not a success: an unrecoverable URL error,
  a connection-level error, and a response (which may carry a status code configured for
  retry).
\<close>

datatype attempt = Unrecoverable exc | ConnectionFailed | Answered response

text \<open>
  Modelled from the spec: the result of the adapter's loop, which is the outcome that
  \<^verbatim>\<open>session.get\<close> hands to the script, the number of attempts made, and the delays slept
  between them, in seconds.
\<close>

record fetch =
  outcome :: "exc + response"
  attempts :: nat
  delays :: "rat list"

text \<open>
  Modelled from the spec: the adapter's loop, missing from the repository (section 4.3):
  ``retry only on configured status codes or on transient network errors, up to
  \<open>maxRetries\<close> attempts, with each retry delayed by \<open>backoffFactor * 2^(attempt-1)\<close>
  seconds; zero \<open>maxRetries\<close> means fail immediately on the first error with no retry''.
  An unrecoverable URL error is ``always terminal, never retried regardless of policy''.
  A failure whose retries are exhausted is raised to the script, which records it: a
  connection-level error as \<^verbatim>\<open>ConnectionError\<close> (\<open>ConnectionFailed\<close> in the taxonomy of
  section 7), a status code configured for retry as \<^verbatim>\<open>RetryError\<close> (\<open>RetriesExhausted\<close>).
  Any other response is returned to the script.
  \<open>wire k\<close> is what attempt number \<open>k\<close> (from 0) yields; \<open>k\<close> retries have been made
  when it is asked.
\<close>

function fetch_with_retry :: "session \<Rightarrow> (nat \<Rightarrow> attempt) \<Rightarrow> nat \<Rightarrow> rat list \<Rightarrow> fetch" where
  "fetch_with_retry policy wire k slept =
     (case wire k of
        Unrecoverable e \<Rightarrow> \<lparr>outcome = Inl e, attempts = k + 1, delays = slept\<rparr>
      | ConnectionFailed \<Rightarrow>
          if int k < total policy
          then fetch_with_retry policy wire (k + 1) (slept @ [backoff_factor policy * 2 ^ k])
          else \<lparr>outcome = Inl ConnectionError_exc, attempts = k + 1, delays = slept\<rparr>
      | Answered resp \<Rightarrow>
          if status_code resp \<in> set (status_forcelist policy) then
            if int k < total policy
            then fetch_with_retry policy wire (k + 1) (slept @ [backoff_factor policy * 2 ^ k])
            else \<lparr>outcome = Inl RetryError_exc, attempts = k + 1, delays = slept\<rparr>
          else \<lparr>outcome = Inr resp, attempts = k + 1, delays = slept\<rparr>)"
  by pat_completeness auto
termination
  by (relation "measure (\<lambda>(policy, wire, k, slept). nat (total policy - int k))") auto

declare fetch_with_retry.simps [simp del]

text \<open>
  Modelled from the spec: a network in which \<^verbatim>\<open>session.get\<close> is that loop, run on the
  attempts that the wire yields for the work item.
\<close>

definition wired :: "(nat \<times> string \<Rightarrow> nat \<Rightarrow> attempt) \<Rightarrow> env \<Rightarrow> env" where
  "wired wire env =
     env\<lparr>session_get := (\<lambda>sess url allow_redirects verify.
        outcome (fetch_with_retry sess (wire url) 0 []))\<rparr>"

section \<open>Properties\<close>

subsection \<open>The empty input\<close>

lemma join_nothing_unfinished:
  "unfinished_tasks p = 0 \<Longrightarrow> join env sess allow_redirects verify sched p = Some p"
  by (simp add: join.simps)

text \<open>
  C1. The claim: for an empty input list the run completes with \<open>totalURLs = 0\<close> and the
  success rate is computed without a crash. What the script does there: no thread is
  started, \<^verbatim>\<open>q.join()\<close> returns at once, the reconciliation leaves the header alone and
  counts 0 rows, and then \<^verbatim>\<open>successful_urls / total_urls\<close> is \<open>0 / 0\<close>: the script ends
  with \<^verbatim>\<open>ZeroDivisionError\<close> before it prints the summary, whatever the options and the
  network.
\<close>

theorem main_empty_input_ZeroDivisionError:
  "main env a [] sched = Some (Inl ZeroDivisionError, open_files)"
  by (simp add: main_def launch_def join_nothing_unfinished clean_up_output_def
      open_files_def cleanwriter_writerow_def errorwriter_writerow_def clean_header_def
      dropna_def)

subsection \<open>One work item\<close>

text \<open>
  C8. When \<^verbatim>\<open>session.get\<close> raises \<^verbatim>\<open>InvalidSchema\<close>, \<^verbatim>\<open>MissingSchema\<close> or
  \<^verbatim>\<open>TooManyRedirects\<close> (or a subclass of one of them), whatever retry policy the session
  was created with, \<^verbatim>\<open>get_text_from_url\<close> returns normally, has appended exactly one row to
  the Error Sink, the URL and the name of the exception's class, has left the Clean Sink
  alone, and has sent exactly one request: the failure is not tried again.
\<close>

theorem unrecoverable_url_error_recorded_once:
  assumes "session_get env sess url allow_redirects verify = Inl e"
    and "isinstance e [InvalidSchema, MissingSchema, TooManyRedirects]"
  shows "fst (get_text_from_url env sess allow_redirects verify url w) = None \<and>
         errorfile (snd (get_text_from_url env sess allow_redirects verify url w))
           = errorfile w @ [[snd url, cls_name e]] \<and>
         cleanfile (snd (get_text_from_url env sess allow_redirects verify url w)) = cleanfile w \<and>
         gets (snd (get_text_from_url env sess allow_redirects verify url w))
           = gets w @ [(snd url, allow_redirects, verify)]"
proof -
  from assms(2) have "isinstance e [ConnectionError, InvalidSchema]
      \<or> isinstance e [MissingSchema, TooManyRedirects, RetryError]"
    by (auto simp: isinstance_def)
  with assms(1) show ?thesis
    by (auto simp: get_text_from_url_def Let_def print_def errorwriter_writerow_def)
qed

theorem unrecoverable_url_error_recorded_once_witness:
  "session_get example_env (create_session 5 (1 / 2)) (1, ''not-a-url'') False True
     = Inl MissingSchema_exc \<and>
   isinstance MissingSchema_exc [InvalidSchema, MissingSchema, TooManyRedirects] \<and>
   fst (get_text_from_url example_env (create_session 5 (1 / 2)) False True
          (1, ''not-a-url'') open_files) = None \<and>
   errorfile (snd (get_text_from_url example_env (create_session 5 (1 / 2)) False True
          (1, ''not-a-url'') open_files))
     = [[''url'', ''error''], [''not-a-url'', ''MissingSchema'']] \<and>
   gets (snd (get_text_from_url example_env (create_session 5 (1 / 2)) False True
          (1, ''not-a-url'') open_files))
     = [(''not-a-url'', False, True)]"
proof -
  have g: "session_get example_env (create_session 5 (1 / 2)) (1, ''not-a-url'') False True
     = Inl MissingSchema_exc"
    by (simp add: example_env_def)
  have i: "isinstance MissingSchema_exc [InvalidSchema, MissingSchema, TooManyRedirects]"
    by (simp add: isinstance_def MissingSchema_exc_def)
  show ?thesis
    using g i unrecoverable_url_error_recorded_once [OF g i, of open_files]
    by (simp add: open_files_def errorwriter_writerow_def cleanwriter_writerow_def
        error_header_def MissingSchema_exc_def)
qed

text \<open>
  C10. When \<^verbatim>\<open>session.get\<close> returns a response that is OK and the article's download
  does not reach the state 2, \<^verbatim>\<open>get_text_from_url\<close> returns normally and has written
  nothing: no row in the Clean Sink, no row in the Error Sink, no line on standard output.
  Such work items exist, as the witness shows.
\<close>

theorem failed_download_leaves_no_row:
  assumes "session_get env sess url allow_redirects verify = Inr resp" and "ok resp"
    and "download_state (article_download env url) \<noteq> 2"
  shows "fst (get_text_from_url env sess allow_redirects verify url w) = None \<and>
         cleanfile (snd (get_text_from_url env sess allow_redirects verify url w)) = cleanfile w \<and>
         errorfile (snd (get_text_from_url env sess allow_redirects verify url w)) = errorfile w \<and>
         stdout (snd (get_text_from_url env sess allow_redirects verify url w)) = stdout w"
  using assms by (simp add: get_text_from_url_def Let_def)

theorem failed_download_leaves_no_row_witness:
  "session_get example_env (create_session 0 0) (0, ''https://valid.example/slow'') False True
     = Inr \<lparr>status_code = 200, ok = True\<rparr> \<and>
   download_state (article_download example_env (0, ''https://valid.example/slow'')) = 1 \<and>
   fst (get_text_from_url example_env (create_session 0 0) False True
          (0, ''https://valid.example/slow'') open_files) = None \<and>
   cleanfile (snd (get_text_from_url example_env (create_session 0 0) False True
          (0, ''https://valid.example/slow'') open_files)) = [clean_header] \<and>
   errorfile (snd (get_text_from_url example_env (create_session 0 0) False True
          (0, ''https://valid.example/slow'') open_files)) = [error_header] \<and>
   stdout (snd (get_text_from_url example_env (create_session 0 0) False True
          (0, ''https://valid.example/slow'') open_files)) = []"
proof -
  have g: "session_get example_env (create_session 0 0) (0, ''https://valid.example/slow'') False True
     = Inr \<lparr>status_code = 200, ok = True\<rparr>"
    by (simp add: example_env_def)
  have k: "ok \<lparr>status_code = 200, ok = True\<rparr>"
    by simp
  have d: "download_state (article_download example_env (0, ''https://valid.example/slow'')) \<noteq> 2"
    by (simp add: example_env_def example_article_def)
  have d1: "download_state (article_download example_env (0, ''https://valid.example/slow'')) = 1"
    by (simp add: example_env_def example_article_def)
  show ?thesis
    using g d1 failed_download_leaves_no_row [OF g k d, of open_files]
    by (simp add: open_files_def errorwriter_writerow_def cleanwriter_writerow_def)
qed

subsection \<open>The reconciliation\<close>

lemma dropna_kept:
  "na '''' \<Longrightarrow> row \<in> set (dropna na i rows) \<Longrightarrow> i < length row \<and> row ! i \<noteq> ''''"
  by (auto simp: dropna_def missing_def split: if_splits)

text \<open>
  C5. Where the empty cell is read as missing, as \<^verbatim>\<open>pandas.read_csv\<close> reads it, every
  data row of the file that \<^verbatim>\<open>clean_up_output\<close> writes back has a non-empty cell in the
  column \<^verbatim>\<open>text\<close>, and the count it returns, which \<^verbatim>\<open>main\<close> reports as
  \<^verbatim>\<open>successful_urls\<close>, is the number of these rows.
\<close>

theorem clean_up_output_keeps_rows_with_text:
  assumes "na ''''" and "clean_up_output na file = Inr (file', n)"
  shows "(\<forall>row \<in> set (data_rows file'). \<exists>t. column ''text'' (hd file') row = Some t \<and> t \<noteq> '''')
         \<and> n = length (data_rows file')"
  using assms
  by (auto simp: clean_up_output_def data_rows_def column_def Let_def dest: dropna_kept
      split: list.splits option.splits)

theorem clean_up_output_keeps_rows_with_text_witness:
  "pandas_na '''' \<and>
   clean_up_output pandas_na
     [clean_header,
      [''Some text'', ''A'', ''[]'', ''u1'', ''set()'', ''[]'', ''d'', ''t''],
      ['''', ''B'', ''[]'', ''u2'', ''set()'', ''[]'', ''d'', ''t''],
      [''NA'', ''C'', ''[]'', ''u3'', ''set()'', ''[]'', ''d'', ''t'']]
    = Inr ([clean_header, [''Some text'', ''A'', ''[]'', ''u1'', ''set()'', ''[]'', ''d'', ''t'']], 1) \<and>
   column ''text'' clean_header [''Some text'', ''A'', ''[]'', ''u1'', ''set()'', ''[]'', ''d'', ''t'']
    = Some ''Some text'' \<and>
   (1::nat) = length (data_rows
        [clean_header, [''Some text'', ''A'', ''[]'', ''u1'', ''set()'', ''[]'', ''d'', ''t'']])"
proof -
  have e: "pandas_na ''''"
    by (simp add: pandas_na_def)
  have c: "clean_up_output pandas_na
     [clean_header,
      [''Some text'', ''A'', ''[]'', ''u1'', ''set()'', ''[]'', ''d'', ''t''],
      ['''', ''B'', ''[]'', ''u2'', ''set()'', ''[]'', ''d'', ''t''],
      [''NA'', ''C'', ''[]'', ''u3'', ''set()'', ''[]'', ''d'', ''t'']]
    = Inr ([clean_header, [''Some text'', ''A'', ''[]'', ''u1'', ''set()'', ''[]'', ''d'', ''t'']], 1)"
    by (simp add: clean_up_output_def pandas_na_def clean_header_def dropna_def missing_def)
  show ?thesis
    using e c clean_up_output_keeps_rows_with_text [OF e c]
    by (simp add: data_rows_def column_def clean_header_def)
qed

text \<open>The count that \<open>main\<close> reports is the number of data rows it leaves in the Clean Sink.\<close>

lemma main_reports_rows_kept:
  assumes "main env a urls sched = Some (Inr s, w)"
  shows "successful_urls s = length (data_rows (cleanfile w))"
  using assms
  by (auto simp: main_def Let_def clean_up_output_def data_rows_def
      split: option.splits sum.splits list.splits if_splits)

subsection \<open>The threads\<close>

lemma filter_waiting_update:
  "i < length ws \<Longrightarrow>
   length (filter waiting (ws[i := y])) + (if waiting (ws ! i) then 1 else 0)
     = length (filter waiting ws) + (if waiting y then 1 else 0)"
proof (induction ws arbitrary: i)
  case Nil
  then show ?case by simp
next
  case (Cons x ws)
  then show ?case by (cases i) auto
qed

lemma target_task_enough:
  assumes "enough p" and "target_task env sess ar v i p = Some p'"
  shows "enough p'"
proof -
  from assms(2) have i: "i < length (workers p)"
    by (auto simp: target_task_def split: if_splits)
  show ?thesis
  proof (cases "workers p ! i")
    case Ready
    with assms i filter_waiting_update [OF i, of Exited] filter_waiting_update [OF i, of Checked]
    show ?thesis
      by (auto simp: target_task_def enough_def split: if_splits)
  next
    case Checked
    with assms i filter_waiting_update [OF i, of "Holding (hd (queue p))"]
    show ?thesis
      by (auto simp: target_task_def enough_def split: list.splits)
  next
    case (Holding url)
    with assms i filter_waiting_update [OF i, of Ready]
      filter_waiting_update [OF i, of "Dead e" for e]
    show ?thesis
      by (auto simp: target_task_def enough_def split: prod.splits option.splits)
  next
    case Exited
    with assms i show ?thesis by (simp add: target_task_def)
  next
    case (Dead e)
    with assms i show ?thesis by (simp add: target_task_def)
  qed
qed

lemma turn_enough: "enough p \<Longrightarrow> enough (turn env sess ar v i p)"
  by (auto simp: turn_def dest: target_task_enough split: option.splits)

lemma run_enough: "enough p \<Longrightarrow> enough (run env sess ar v sched p)"
  by (induction sched arbitrary: p) (auto simp: turn_enough)

lemma launch_enough: "int (length urls) \<le> threads a \<Longrightarrow> enough (launch a urls w)"
  by (simp add: launch_def enough_def min_def Let_def)

lemma waiting_has_step:
  assumes "i < length (workers p)" and "waiting (workers p ! i)" and "queue p \<noteq> []"
  shows "target_task env sess ar v i p \<noteq> None"
  using assms by (cases "workers p ! i") (auto simp: target_task_def split: list.splits)

lemma enough_not_quiescent:
  assumes "enough p" and "queue p \<noteq> []"
  shows "\<not> quiescent env sess ar v p"
proof -
  from assms have "filter waiting (workers p) \<noteq> []"
    by (auto simp: enough_def)
  then obtain t where "t \<in> set (workers p)" and t: "waiting t"
    by (metis filter_False) 
  then obtain i where i: "i < length (workers p)" and "workers p ! i = t"
    by (auto simp: in_set_conv_nth)
  with t assms(2) have "target_task env sess ar v i p \<noteq> None"
    by (simp add: waiting_has_step)
  with i show ?thesis
    by (auto simp: quiescent_def list_all_iff)
qed

lemma weight_update:
  "i < length ws \<Longrightarrow>
   sum_list (map weight (ws[i := y])) + weight (ws ! i) = sum_list (map weight ws) + weight y"
proof (induction ws arbitrary: i)
  case Nil
  then show ?case by simp
next
  case (Cons x ws)
  then show ?case by (cases i) auto
qed

lemma target_task_potential:
  assumes "target_task env sess ar v i p = Some p'"
  shows "potential p' < potential p"
proof -
  from assms have i: "i < length (workers p)"
    by (auto simp: target_task_def split: if_splits)
  show ?thesis
  proof (cases "workers p ! i")
    case Ready
    with assms i weight_update [OF i, of Exited] weight_update [OF i, of Checked]
    show ?thesis
      by (auto simp: target_task_def potential_def split: if_splits)
  next
    case Checked
    with assms i weight_update [OF i, of "Holding (hd (queue p))"]
    show ?thesis
      by (auto simp: target_task_def potential_def split: list.splits)
  next
    case (Holding url)
    obtain r w where g: "get_text_from_url env sess ar v url (world p) = (r, w)"
      by (cases "get_text_from_url env sess ar v url (world p)")
    show ?thesis
    proof (cases r)
      case None
      with assms i Holding g weight_update [OF i, of Ready] show ?thesis
        by (auto simp: target_task_def potential_def)
    next
      case (Some e)
      with assms i Holding g weight_update [OF i, of "Dead e"] show ?thesis
        by (auto simp: target_task_def potential_def)
    qed
  next
    case Exited
    with assms i show ?thesis by (simp add: target_task_def)
  next
    case (Dead e)
    with assms i show ?thesis by (simp add: target_task_def)
  qed
qed


lemma not_quiescent_step:
  assumes "\<not> quiescent env sess ar v p"
  shows "\<exists>i p'. target_task env sess ar v i p = Some p'"
  using assms by (auto simp: quiescent_def list_all_iff)

lemma reaches_quiescence:
  "\<exists>sched. quiescent env sess ar v (run env sess ar v sched p)"
proof (induction p rule: measure_induct_rule [where f = potential])
  case (less p)
  show ?case
  proof (cases "quiescent env sess ar v p")
    case True
    then have "quiescent env sess ar v (run env sess ar v [] p)" by simp
    then show ?thesis by blast
  next
    case False
    then obtain i p' where s: "target_task env sess ar v i p = Some p'"
      using not_quiescent_step by blast
    then have "potential p' < potential p"
      by (rule target_task_potential)
    then obtain sched where "quiescent env sess ar v (run env sess ar v sched p')"
      using less.IH by blast
    with s have "quiescent env sess ar v (run env sess ar v (i # sched) p)"
      by (simp add: turn_def)
    then show ?thesis by blast
  qed
qed

text \<open>
  C3, as amended. The number of threads started is \<open>min(requestedThreads, totalURLs)\<close>
  when \<open>requestedThreads\<close> is not negative, and 0 when it is negative
  (\<^verbatim>\<open>range\<close> of a negative number is empty). When \<open>requestedThreads > totalURLs\<close> it is
  exactly \<open>totalURLs\<close>, and every item put in the queue is taken: under every schedule,
  a pool in which no thread has a step has an empty queue, and some schedule leads to such
  a pool (every step of a thread lowers the potential, so the threads cannot step for
  ever).
\<close>

theorem workers_launched:
  "int (length (workers (launch a urls w))) = max 0 (min (threads a) (int (length urls))) \<and>
   (0 \<le> threads a \<longrightarrow>
      int (length (workers (launch a urls w))) = min (threads a) (int (length urls))) \<and>
   (int (length urls) < threads a \<longrightarrow>
      length (workers (launch a urls w)) = length urls \<and>
      (\<forall>sched. quiescent env sess ar v (run env sess ar v sched (launch a urls w)) \<longrightarrow>
         queue (run env sess ar v sched (launch a urls w)) = []) \<and>
      (\<exists>sched. quiescent env sess ar v (run env sess ar v sched (launch a urls w))))"
proof -
  have n: "int (length (workers (launch a urls w))) = max 0 (min (threads a) (int (length urls)))"
    by (simp add: launch_def Let_def)
  have c: "queue (run env sess ar v sched (launch a urls w)) = []"
    if "int (length urls) < threads a"
      and "quiescent env sess ar v (run env sess ar v sched (launch a urls w))" for sched
  proof -
    from that(1) have "enough (run env sess ar v sched (launch a urls w))"
      by (simp add: launch_enough run_enough)
    with that(2) show ?thesis
      using enough_not_quiescent by blast
  qed
  from n c reaches_quiescence show ?thesis
    by auto
qed

theorem workers_launched_witness:
  "int (length [''https://valid.example/page'', ''not-a-url'']) < threads example_args \<and>
   length (workers (launch example_args [''https://valid.example/page'', ''not-a-url''] open_files)) = 2 \<and>
   quiescent example_env (create_session 0 0) False True
     (run example_env (create_session 0 0) False True [0, 0, 0, 0, 0, 0, 0, 1]
        (launch example_args [''https://valid.example/page'', ''not-a-url''] open_files)) \<and>
   queue (run example_env (create_session 0 0) False True [0, 0, 0, 0, 0, 0, 0, 1]
        (launch example_args [''https://valid.example/page'', ''not-a-url''] open_files)) = []"
proof -
  have q: "quiescent example_env (create_session 0 0) False True
     (run example_env (create_session 0 0) False True [0, 0, 0, 0, 0, 0, 0, 1]
        (launch example_args [''https://valid.example/page'', ''not-a-url''] open_files))"
    by code_simp
  have t: "int (length [''https://valid.example/page'', ''not-a-url'']) < threads example_args"
    by (simp add: example_args_def)
  have l: "length (workers (launch example_args [''https://valid.example/page'', ''not-a-url''] open_files)) = 2"
    by (simp add: launch_def example_args_def)
  have c: "queue (run example_env (create_session 0 0) False True [0, 0, 0, 0, 0, 0, 0, 1]
        (launch example_args [''https://valid.example/page'', ''not-a-url''] open_files)) = []"
    using q t workers_launched [of example_args "[''https://valid.example/page'', ''not-a-url'']"
        open_files example_env "create_session 0 0" False True]
    by blast
  show ?thesis
    by (rule conjI [OF t conjI [OF l conjI [OF q c]]])
qed

text \<open>
  The claim as it was stated fails for a negative number of threads: asked for \<open>-1\<close>
  threads on one URL, the script starts none, and \<open>min(-1, 1)\<close> is \<open>-1\<close>.
\<close>

theorem workers_launched_counterexample:
  "int (length (workers (launch (example_args\<lparr>threads := - 1\<rparr>) [''https://valid.example/page''] open_files)))
     \<noteq> min (threads (example_args\<lparr>threads := - 1\<rparr>)) (int (length [''https://valid.example/page'']))"
  by (simp add: launch_def example_args_def)

subsection \<open>The two sinks\<close>

lemma get_text_from_url_rows:
  assumes "cleanfile w \<noteq> []" and "errorfile w \<noteq> []"
    and "get_text_from_url env sess ar v url w = (r, w')"
  shows "cleanfile w' \<noteq> [] \<and> errorfile w' \<noteq> [] \<and>
         mset (clean_urls w') + mset (error_urls w')
           \<subseteq># add_mset (snd url) (mset (clean_urls w) + mset (error_urls w))"
  using assms
  by (auto simp: get_text_from_url_def Let_def print_def errorwriter_writerow_def
      cleanwriter_writerow_def clean_urls_def error_urls_def data_rows_def
      split: sum.splits if_splits option.splits prod.splits)

lemma held_update:
  "i < length ws \<Longrightarrow>
   mset (concat (map held (ws[i := y]))) + mset (held (ws ! i))
     = mset (concat (map held ws)) + mset (held y)"
proof (induction ws arbitrary: i)
  case Nil
  then show ?case by simp
next
  case (Cons x ws)
  then show ?case by (cases i) auto
qed

lemma target_task_accounted:
  assumes "accounted urls p" and "target_task env sess ar v i p = Some p'"
  shows "accounted urls p'"
proof -
  from assms(2) have i: "i < length (workers p)"
    by (auto simp: target_task_def split: if_splits)
  show ?thesis
  proof (cases "workers p ! i")
    case Ready
    with assms i held_update [OF i, of Exited] held_update [OF i, of Checked]
    show ?thesis
      by (auto simp: target_task_def accounted_def split: if_splits)
  next
    case Checked
    with assms(2) i obtain url rest where q: "queue p = url # rest"
      and p': "p' = p\<lparr>queue := rest, workers := (workers p)[i := Holding url]\<rparr>"
      by (auto simp: target_task_def split: list.splits)
    from Checked held_update [OF i, of "Holding url"]
    have "mset (concat (map held ((workers p)[i := Holding url])))
        = add_mset (snd url) (mset (concat (map held (workers p))))"
      by simp
    with assms(1) q p' show ?thesis
      by (simp add: accounted_def)
  next
    case (Holding url)
    obtain r w where g: "get_text_from_url env sess ar v url (world p) = (r, w)"
      by (cases "get_text_from_url env sess ar v url (world p)")
    from assms(1) have ne: "cleanfile (world p) \<noteq> []" "errorfile (world p) \<noteq> []"
      by (simp_all add: accounted_def)
    from get_text_from_url_rows [OF ne g]
    have w: "cleanfile w \<noteq> []" "errorfile w \<noteq> []"
      and s: "mset (clean_urls w) + mset (error_urls w)
           \<subseteq># add_mset (snd url) (mset (clean_urls (world p)) + mset (error_urls (world p)))"
      by simp_all
    have h: "add_mset (snd url) (mset (concat (map held ((workers p)[i := t]))))
        = mset (concat (map held (workers p)))" if "held t = []" for t
      using Holding held_update [OF i, of t] that by simp
    have "mset (clean_urls w) + mset (error_urls w) + mset (map snd (queue p))
            + mset (concat (map held ((workers p)[i := t])))
          \<subseteq># mset urls" if t: "held t = []" for t
    proof -
      have "mset (clean_urls w) + mset (error_urls w) + mset (map snd (queue p))
            + mset (concat (map held ((workers p)[i := t])))
          \<subseteq># add_mset (snd url) (mset (clean_urls (world p)) + mset (error_urls (world p)))
            + mset (map snd (queue p)) + mset (concat (map held ((workers p)[i := t])))"
        using s by (simp add: mset_subset_eq_mono_add_right_cancel)
      also have "\<dots> = mset (clean_urls (world p)) + mset (error_urls (world p))
            + mset (map snd (queue p)) + mset (concat (map held (workers p)))"
        using h [OF t] by simp
      also have "\<dots> \<subseteq># mset urls"
        using assms(1) by (simp add: accounted_def)
      finally show ?thesis .
    qed
    from this [of Ready] this [of "Dead e" for e] assms(2) i Holding g w show ?thesis
      by (cases r) (auto simp: target_task_def accounted_def)
  next
    case Exited
    with assms i show ?thesis by (simp add: target_task_def)
  next
    case (Dead e)
    with assms i show ?thesis by (simp add: target_task_def)
  qed
qed

lemma turn_accounted: "accounted urls p \<Longrightarrow> accounted urls (turn env sess ar v i p)"
  by (auto simp: turn_def dest: target_task_accounted split: option.splits)

lemma join_accounted:
  "accounted urls p \<Longrightarrow> join env sess ar v sched p = Some p' \<Longrightarrow> accounted urls p'"
proof (induction sched arbitrary: p)
  case Nil
  then show ?case by (simp add: join.simps split: if_splits)
next
  case (Cons i sched)
  show ?case
  proof (cases "unfinished_tasks p = 0")
    case True
    with Cons.prems show ?thesis by (simp add: join.simps)
  next
    case False
    with Cons.prems have "join env sess ar v sched (turn env sess ar v i p) = Some p'"
      by (simp add: join.simps)
    with Cons.IH [OF turn_accounted [OF Cons.prems(1)]] show ?thesis by blast
  qed
qed

lemma launch_accounted: "accounted urls (launch a urls open_files)"
  by (simp add: accounted_def launch_def Let_def open_files_def cleanwriter_writerow_def
      errorwriter_writerow_def clean_urls_def error_urls_def data_rows_def map_snd_enumerate)


lemma clean_up_output_urls:
  assumes "clean_up_output na file = Inr (df, n)"
  shows "mset (map f (data_rows df)) \<subseteq># mset (map f (data_rows file))"
proof -
  from assms obtain header rows i where "file = header # rows"
    and "df = header # dropna na i rows"
    by (auto simp: clean_up_output_def Let_def split: list.splits option.splits)
  then show ?thesis
    by (simp add: data_rows_def dropna_def image_mset_subseteq_mono)
qed

lemma sinks_within_input:
  assumes "mset xs + mset ys \<subseteq># mset urls"
  shows "length xs + length ys \<le> length urls \<and> (distinct urls \<longrightarrow> set xs \<inter> set ys = {})"
proof
  from assms have "size (mset xs + mset ys) \<le> size (mset urls)"
    by (rule size_mset_mono)
  then show "length xs + length ys \<le> length urls"
    by simp
next
  show "distinct urls \<longrightarrow> set xs \<inter> set ys = {}"
  proof
    assume d: "distinct urls"
    show "set xs \<inter> set ys = {}"
    proof (rule ccontr)
      assume "set xs \<inter> set ys \<noteq> {}"
      then obtain u where "u \<in> set xs" and "u \<in> set ys"
        by blast
      then have "1 \<le> count (mset xs) u" and "1 \<le> count (mset ys) u"
        by (simp_all add: count_greater_eq_one_iff)
      moreover have "count (mset xs + mset ys) u = count (mset xs) u + count (mset ys) u"
        by simp
      ultimately have "2 \<le> count (mset xs + mset ys) u"
        by linarith
      also from assms have "\<dots> \<le> count (mset urls) u"
        by (rule mset_subset_eq_count)
      also from d have "\<dots> \<le> 1"
        by (simp add: distinct_count_atmost_1)
      finally show False by simp
    qed
  qed
qed

text \<open>
  C4, as amended. For every run that reaches the reconciliation, the data rows of the
  Clean Sink after the reconciliation and the data rows of the Error Sink together number
  at most \<open>totalURLs\<close>; and when no URL occurs twice in the input, no URL appears in both
  sinks.
\<close>

theorem sinks_within_input_urls:
  assumes "main env a urls sched = Some (r, w)"
  shows "length (data_rows (cleanfile w)) + length (data_rows (errorfile w)) \<le> length urls \<and>
         (distinct urls \<longrightarrow> set (clean_urls w) \<inter> set (error_urls w) = {})"
proof -
  from assms obtain p where j: "join env (create_session (max_retries a) (backoff a))
      (redirects a) (unverified a) sched (launch a urls open_files) = Some p"
    by (auto simp: main_def Let_def split: option.splits)
  have "mset (clean_urls (world p)) + mset (error_urls (world p))
      \<subseteq># mset (clean_urls (world p)) + mset (error_urls (world p))
        + mset (map snd (queue p)) + mset (concat (map held (workers p)))"
    by simp
  also from join_accounted [OF launch_accounted j] have "\<dots> \<subseteq># mset urls"
    by (simp add: accounted_def)
  finally have acc: "mset (clean_urls (world p)) + mset (error_urls (world p)) \<subseteq># mset urls" .
  have "mset (clean_urls w) \<subseteq># mset (clean_urls (world p)) \<and> error_urls w = error_urls (world p)"
  proof (cases "clean_up_output (is_na env) (cleanfile (world p))")
    case (Inl e)
    with assms j have "w = world p"
      by (auto simp: main_def Let_def)
    then show ?thesis by simp
  next
    case (Inr x)
    obtain df n where x: "x = (df, n)"
      by (cases x)
    with assms j Inr have "w = (world p)\<lparr>cleanfile := df\<rparr>"
      by (auto simp: main_def Let_def split: if_splits)
    with clean_up_output_urls [of "is_na env" "cleanfile (world p)" df n "\<lambda>row. row ! 3"] Inr x
    show ?thesis
      by (simp add: clean_urls_def error_urls_def)
  qed
  with acc have "mset (clean_urls w) + mset (error_urls w) \<subseteq># mset urls"
    by (metis subset_mset.add_right_mono subset_mset.order_trans)
  from sinks_within_input [OF this] show ?thesis
    by (simp add: clean_urls_def error_urls_def)
qed

theorem sinks_within_input_urls_witness:
  "distinct [''https://valid.example/page'', ''not-a-url'', ''https://valid.example/404''] \<and>
   (\<exists>r w. main example_env example_args
       [''https://valid.example/page'', ''not-a-url'', ''https://valid.example/404'']
       [0, 0, 0, 1, 1, 1, 2, 2, 2] = Some (r, w) \<and>
     length (data_rows (cleanfile w)) + length (data_rows (errorfile w)) \<le> 3 \<and>
     set (clean_urls w) \<inter> set (error_urls w) = {})"
proof -
  have d: "distinct [''https://valid.example/page'', ''not-a-url'', ''https://valid.example/404'']"
    by simp
  have "main example_env example_args
       [''https://valid.example/page'', ''not-a-url'', ''https://valid.example/404'']
       [0, 0, 0, 1, 1, 1, 2, 2, 2] \<noteq> None"
    by code_simp
  then obtain r w where m: "main example_env example_args
       [''https://valid.example/page'', ''not-a-url'', ''https://valid.example/404'']
       [0, 0, 0, 1, 1, 1, 2, 2, 2] = Some (r, w)"
    by auto
  from sinks_within_input_urls [OF m] d m show ?thesis
    by auto
qed

text \<open>
  The claim as it was stated fails when a URL occurs twice in the input and the network
  answers its two requests differently: the first request is refused and recorded in the
  Error Sink, the second succeeds and is recorded in the Clean Sink.
\<close>

theorem sinks_within_input_urls_counterexample:
  "map_option (\<lambda>(r, w). (clean_urls w, error_urls w))
     (main flaky_env example_args
        [''https://valid.example/page'', ''https://valid.example/page''] [0, 0, 0, 1, 1, 1])
   = Some ([''https://valid.example/page''], [''https://valid.example/page''])"
  by code_simp

subsection \<open>Failures that \<^verbatim>\<open>get_text_from_url\<close> catches, and those it does not\<close>

text \<open>
  A failure of the fetch in one of the five classes that the two \<^verbatim>\<open>except\<close> clauses name
  is recorded in the Error Sink and printed with the index of the item, and the thread
  that held the item is back at its loop test, the task marked done.
\<close>

lemma caught_failure_recorded_thread_continues:
  assumes "session_get env sess url ar v = Inl e"
    and "isinstance e [ConnectionError, InvalidSchema, MissingSchema, TooManyRedirects, RetryError]"
    and "i < length (workers p)" and "workers p ! i = Holding url"
  shows "\<exists>w. target_task env sess ar v i p
            = Some (p\<lparr>unfinished_tasks := unfinished_tasks p - 1,
                      workers := (workers p)[i := Ready], world := w\<rparr>) \<and>
           errorfile w = errorfile (world p) @ [[snd url, cls_name e]] \<and>
           stdout w = stdout (world p) @ [exc_line (fst url) e (snd url), not_valid_line (snd url)]"
proof -
  from assms(2) have "isinstance e [ConnectionError, InvalidSchema]
      \<or> isinstance e [MissingSchema, TooManyRedirects, RetryError]"
    by (auto simp: isinstance_def)
  with assms(1,3,4) show ?thesis
    by (auto simp: target_task_def get_text_from_url_def Let_def print_def
        errorwriter_writerow_def)
qed

lemma quiescent_turn:
  assumes "quiescent env sess ar v p"
  shows "turn env sess ar v i p = p"
proof (cases "i < length (workers p)")
  case True
  with assms have "target_task env sess ar v i p = None"
    by (simp add: quiescent_def list_all_iff)
  then show ?thesis by (simp add: turn_def)
next
  case False
  then show ?thesis by (simp add: turn_def target_task_def)
qed

lemma quiescent_join:
  assumes "quiescent env sess ar v p" and "unfinished_tasks p \<noteq> 0"
  shows "join env sess ar v sched p = None"
  using assms
  by (induction sched) (simp_all add: join.simps quiescent_turn)

lemma join_append:
  "join env sess ar v xs p = None \<Longrightarrow>
   join env sess ar v (xs @ ys) p = join env sess ar v ys (run env sess ar v xs p)"
proof (induction xs arbitrary: p)
  case Nil
  then show ?case by simp
next
  case (Cons i xs)
  from Cons.prems have u: "unfinished_tasks p \<noteq> 0"
    by (auto simp: join.simps split: if_splits)
  with Cons.prems have "join env sess ar v xs (turn env sess ar v i p) = None"
    by (simp add: join.simps)
  from Cons.IH [OF this] u show ?case
    by (simp add: join.simps)
qed

text \<open>
  C2. The claim: every failure that arises while a work item is processed, a failure of
  the extraction or of the date parsing after a successful fetch included, is recorded in
  the Error Sink and logged with the index, and the thread goes on to the next item. What
  the script does on a page that is fetched and downloaded but has no \<^verbatim>\<open>time\<close> element:
  \<^verbatim>\<open>get_date_time\<close> raises \<^verbatim>\<open>AttributeError\<close>, which leaves \<^verbatim>\<open>get_text_from_url\<close> with
  nothing written to the Error Sink and nothing printed; the thread ends before
  \<^verbatim>\<open>q.task_done()\<close>. With one thread and a second URL behind the first, the second URL
  stays in the queue, no thread has a step left, and \<^verbatim>\<open>q.join()\<close> does not return however
  long the schedule goes on.
\<close>

theorem extraction_failure_ends_thread:
  "get_text_from_url example_env (create_session 0 0) False True
     (0, ''https://valid.example/notime'') open_files
   = (Some AttributeError, open_files\<lparr>gets := [(''https://valid.example/notime'', False, True)]\<rparr>) \<and>
   run example_env (create_session 0 0) False True [0, 0, 0]
     (launch (example_args\<lparr>threads := 1\<rparr>)
        [''https://valid.example/notime'', ''https://valid.example/page''] open_files)
   = stuck_pool \<and>
   errorfile (world stuck_pool) = [error_header] \<and>
   stdout (world stuck_pool) = [] \<and>
   quiescent example_env (create_session 0 0) False True stuck_pool \<and>
   main example_env (example_args\<lparr>threads := 1\<rparr>)
     [''https://valid.example/notime'', ''https://valid.example/page''] ([0, 0, 0] @ sched) = None"
proof -
  have g: "get_text_from_url example_env (create_session 0 0) False True
     (0, ''https://valid.example/notime'') open_files
   = (Some AttributeError, open_files\<lparr>gets := [(''https://valid.example/notime'', False, True)]\<rparr>)"
    by code_simp
  have r: "run example_env (create_session 0 0) False True [0, 0, 0]
     (launch (example_args\<lparr>threads := 1\<rparr>)
        [''https://valid.example/notime'', ''https://valid.example/page''] open_files)
   = stuck_pool"
    by code_simp
  have e: "errorfile (world stuck_pool) = [error_header]"
    by code_simp
  have s: "stdout (world stuck_pool) = []"
    by code_simp
  have q: "quiescent example_env (create_session 0 0) False True stuck_pool"
    by code_simp
  have u: "unfinished_tasks stuck_pool \<noteq> 0"
    by (simp add: stuck_pool_def)
  have j: "join example_env (create_session 0 0) False True [0, 0, 0]
     (launch (example_args\<lparr>threads := 1\<rparr>)
        [''https://valid.example/notime'', ''https://valid.example/page''] open_files) = None"
    by code_simp
  have c: "create_session (max_retries (example_args\<lparr>threads := 1\<rparr>)) (backoff (example_args\<lparr>threads := 1\<rparr>))
      = create_session 0 0"
    by (simp add: example_args_def)
  have a: "redirects (example_args\<lparr>threads := 1\<rparr>) = False" "unverified (example_args\<lparr>threads := 1\<rparr>) = True"
    by (simp_all add: example_args_def)
  have "join example_env (create_session 0 0) False True ([0, 0, 0] @ sched)
     (launch (example_args\<lparr>threads := 1\<rparr>)
        [''https://valid.example/notime'', ''https://valid.example/page''] open_files) = None"
    by (simp only: join_append [OF j] r quiescent_join [OF q u])
  then have m: "main example_env (example_args\<lparr>threads := 1\<rparr>)
     [''https://valid.example/notime'', ''https://valid.example/page''] ([0, 0, 0] @ sched) = None"
    unfolding main_def Let_def c a by simp
  from g r e s q m show ?thesis
    by (intro conjI)
qed

subsection \<open>No retries\<close>

lemma fetch_zero_retries:
  "fetch_with_retry (create_session 0 b) wire 0 [] =
     (case wire 0 of
        Unrecoverable e \<Rightarrow> \<lparr>outcome = Inl e, attempts = 1, delays = []\<rparr>
      | ConnectionFailed \<Rightarrow> \<lparr>outcome = Inl ConnectionError_exc, attempts = 1, delays = []\<rparr>
      | Answered resp \<Rightarrow>
          if status_code resp \<in> set (status_forcelist (create_session 0 b))
          then \<lparr>outcome = Inl RetryError_exc, attempts = 1, delays = []\<rparr>
          else \<lparr>outcome = Inr resp, attempts = 1, delays = []\<rparr>)"
  by (simp add: fetch_with_retry.simps [of _ _ 0] create_session_def split: attempt.splits)

text \<open>
  C9. In the retry loop modelled from the spec, with \<open>maxRetries = 0\<close> (the default of
  \<^verbatim>\<open>create_session\<close> and of the option \<^verbatim>\<open>--max_retries\<close>) and any backoff factor: when the
  first attempt fails with a connection-level error or is answered with a status code
  configured for retry, the loop makes exactly one attempt and sleeps no delay, and
  \<^verbatim>\<open>get_text_from_url\<close> appends exactly one row to the Error Sink, leaves the Clean Sink
  alone and sends exactly one request.
\<close>

theorem zero_retries_fail_at_once:
  assumes "wire url 0 = ConnectionFailed \<or>
     (\<exists>resp. wire url 0 = Answered resp \<and>
        status_code resp \<in> set (status_forcelist (create_session 0 b)))"
  shows "attempts (fetch_with_retry (create_session 0 b) (wire url) 0 []) = 1 \<and>
         delays (fetch_with_retry (create_session 0 b) (wire url) 0 []) = [] \<and>
         fst (get_text_from_url (wired wire env) (create_session 0 b) ar v url w) = None \<and>
         errorfile (snd (get_text_from_url (wired wire env) (create_session 0 b) ar v url w))
            = errorfile w @ [[snd url,
                if wire url 0 = ConnectionFailed then ''ConnectionError'' else ''RetryError'']] \<and>
         cleanfile (snd (get_text_from_url (wired wire env) (create_session 0 b) ar v url w))
            = cleanfile w \<and>
         gets (snd (get_text_from_url (wired wire env) (create_session 0 b) ar v url w))
            = gets w @ [(snd url, ar, v)]"
  using assms
proof
  assume c: "wire url 0 = ConnectionFailed"
  have i: "isinstance ConnectionError_exc [ConnectionError, InvalidSchema]"
    by (simp add: isinstance_def ConnectionError_exc_def)
  from c have "session_get (wired wire env) (create_session 0 b) url ar v = Inl ConnectionError_exc"
    by (simp add: wired_def fetch_zero_retries)
  with i c show ?thesis
    by (simp add: fetch_zero_retries get_text_from_url_def Let_def print_def
        errorwriter_writerow_def ConnectionError_exc_def)
next
  assume "\<exists>resp. wire url 0 = Answered resp \<and>
        status_code resp \<in> set (status_forcelist (create_session 0 b))"
  then obtain resp where c: "wire url 0 = Answered resp"
    and f: "status_code resp \<in> set (status_forcelist (create_session 0 b))"
    by blast
  have i: "\<not> isinstance RetryError_exc [ConnectionError, InvalidSchema]"
    "isinstance RetryError_exc [MissingSchema, TooManyRedirects, RetryError]"
    by (simp_all add: isinstance_def RetryError_exc_def RetryError_def ConnectionError_def
        InvalidSchema_def)
  from c f have "session_get (wired wire env) (create_session 0 b) url ar v = Inl RetryError_exc"
    by (simp add: wired_def fetch_zero_retries)
  with i c f show ?thesis
    by (simp add: fetch_zero_retries get_text_from_url_def Let_def print_def
        errorwriter_writerow_def RetryError_exc_def)
qed

theorem zero_retries_fail_at_once_witness:
  "attempts (fetch_with_retry (create_session 0 0) (\<lambda>k. ConnectionFailed) 0 []) = 1 \<and>
   delays (fetch_with_retry (create_session 0 0) (\<lambda>k. ConnectionFailed) 0 []) = [] \<and>
   errorfile (snd (get_text_from_url (wired (\<lambda>url k. ConnectionFailed) example_env)
       (create_session 0 0) False True (0, ''https://down.example/'') open_files))
     = [error_header, [''https://down.example/'', ''ConnectionError'']] \<and>
   gets (snd (get_text_from_url (wired (\<lambda>url k. ConnectionFailed) example_env)
       (create_session 0 0) False True (0, ''https://down.example/'') open_files))
     = [(''https://down.example/'', False, True)]"
proof -
  have h: "(\<lambda>url k. ConnectionFailed) (0::nat, ''https://down.example/'') (0::nat) = ConnectionFailed \<or>
     (\<exists>resp. (\<lambda>url k. ConnectionFailed) (0::nat, ''https://down.example/'') (0::nat) = Answered resp \<and>
        status_code resp \<in> set (status_forcelist (create_session 0 0)))"
    by simp
  from zero_retries_fail_at_once [OF h, where env = example_env and ar = False and v = True and w = open_files]
  show ?thesis
    by (simp add: open_files_def errorwriter_writerow_def cleanwriter_writerow_def)
qed

subsection \<open>Responses that are not OK\<close>






end
